theory Spec2Isabelle
  imports Main
begin

section \<open>The server facade of notafoks.server\<close>

text \<open>
  The repository is one class, \<open>FoxServer\<close>, and the factory \<open>createFoxServer\<close>.
  The class owns an express application and an HTTP listener, registers middleware on the
  application through chained methods, and starts the listener.

  The class is embedded with an explicit store: a facade is an object at a reference, every
  method takes the reference it is invoked on (\<open>this\<close>) and the world, and returns its
  result with the new world. The libraries the class calls (express, http, log4js, figlet and
  the middleware factories) are collaborators: the embedding keeps what the class hands to
  them and what it reads back from them. Three collaborators can throw where the class
  calls them: \<open>express.static\<close> on an empty path, \<open>session\<close> on an empty array of
  secrets, and \<open>listen\<close> on a port out of range or on a listener that is listening
  already. A method that throws returns no value; the model gives the error in place of
  the value, with the world as the throw left it.
\<close>

datatype error =
    TypeError string
  | RangeError string
  | PlainError string

subsection \<open>Values handed to the collaborators\<close>

text \<open>
  Options are passed through as the caller gave them, so they are kept as untyped values.
  \<open>Fun n\<close> is a function value, named by a tag.
\<close>

datatype jsvalue =
    Undefined
  | Null
  | Bool bool
  | Num int
  | Str string
  | Arr "jsvalue list"
  | Obj "(string \<times> jsvalue) list"
  | Fun nat

text \<open>The operator \<open>a ?? b\<close>: \<open>b\<close> when \<open>a\<close> is \<open>undefined\<close> or \<open>null\<close>, else \<open>a\<close>.\<close>

definition nullish_coalesce :: "jsvalue \<Rightarrow> jsvalue \<Rightarrow> jsvalue" where
  "nullish_coalesce a b = (if a = Undefined \<or> a = Null then b else a)"

text \<open>The test \<open>typeof v === 'string'\<close>.\<close>

fun typeof_string :: "jsvalue \<Rightarrow> bool" where
  "typeof_string (Str s) = True"
| "typeof_string v = False"

text \<open>
  Reading a property, \<open>(v || {}).k\<close>: the value stored under the key in an object,
  \<open>undefined\<close> when the key is absent or the value is no object.
\<close>

fun get_property :: "jsvalue \<Rightarrow> string \<Rightarrow> jsvalue" where
  "get_property (Obj kvs) k = (case map_of kvs k of Some v \<Rightarrow> v | None \<Rightarrow> Undefined)"
| "get_property v k = Undefined"

subsection \<open>The express application\<close>

text \<open>
  A middleware is the handler a factory returned, named by the factory and the arguments
  the factory was called with. A layer is a handler mounted at a path; \<open>app.use(fn)\<close>
  mounts at \<open>/\<close>. The application holds its layers in registration order.
\<close>

datatype middleware =
    FileUpload jsvalue
  | Cors jsvalue
  | CookieParser jsvalue jsvalue
  | BodyParserUrlencoded jsvalue
  | BodyParserJson jsvalue
  | MethodOverride jsvalue jsvalue
  | Session jsvalue
  | ExpressStatic string

datatype layer = Layer string middleware

text \<open>
  Two factories check their argument when they are called. \<open>express.static(root)\<close>
  throws on an empty root (\<open>if (!root) throw new TypeError('root path required')\<close>);
  \<open>session(options)\<close> throws when the secret is an empty array.
\<close>

definition express_static :: "string \<Rightarrow> error + middleware" where
  "express_static root =
     (if root = [] then Inl (TypeError ''root path required'') else Inr (ExpressStatic root))"

definition session :: "jsvalue \<Rightarrow> error + middleware" where
  "session options =
     (if get_property options ''secret'' = Arr []
      then Inl (TypeError ''secret option array must contain one or more strings'')
      else Inr (Session options))"

record express_app =
  stack :: "layer list"
  settings :: "string \<Rightarrow> string option"

definition express :: express_app where
  "express = \<lparr>stack = [], settings = (\<lambda>k. None)\<rparr>"

definition app_use :: "string \<Rightarrow> middleware \<Rightarrow> express_app \<Rightarrow> express_app" where
  "app_use path fn a = a\<lparr>stack := stack a @ [Layer path fn]\<rparr>"

definition app_set :: "string \<Rightarrow> string \<Rightarrow> express_app \<Rightarrow> express_app" where
  "app_set name val a = a\<lparr>settings := (settings a)(name := Some val)\<rparr>"

subsection \<open>The HTTP listener\<close>

text \<open>
  \<open>server.address()\<close> is \<open>null\<close> while the listener is not bound, a string for a
  listener on a pipe, and an address record for a listener on a network socket. The
  listener keeps the options of every \<open>listen\<close> call and the error events it emitted.
\<close>

record address_info =
  address :: string
  family :: string
  address_port :: int

datatype server_address =
    AddressNull
  | AddressString string
  | AddressInfo address_info

record http_server =
  server_address :: server_address
  listen_calls :: "(int \<times> string option) list"
  error_events :: "string list"

definition http_createServer :: http_server where
  "http_createServer = \<lparr>server_address = AddressNull, listen_calls = [], error_events = []\<rparr>"

subsection \<open>The logger and the console\<close>

text \<open>
  \<open>getLogger(category)\<close> of log4js makes a new logger object on every call. A logger
  object holds its category; the level it reads and writes is the level of the category,
  which all loggers of the category share. The world holds the logger objects and, for
  each category, the level and the calls made to its loggers (method and message). The two
  messages of \<open>start\<close> are not ASCII text; they are the constructors \<open>MsgStarting\<close>
  (the server is starting) and \<open>MsgStarted\<close> (the server runs at \<open>http://host:port\<close>).
\<close>

datatype log_message =
    Text string
  | MsgStarting
  | MsgStarted "string option" int

record logger_state =
  level :: string
  entries :: "(string \<times> log_message) list"

text \<open>A console line is the banner: the text figlet rendered, with font and layout.\<close>

datatype console_line = FigletText string string string

subsection \<open>The facade and the world\<close>

record fox_server =
  app :: express_app
  server :: http_server
  logger :: nat
  host :: "string option"
  port :: int

record fox_server_props =
  props_host :: "string option"
  props_port :: "int option"

text \<open>
  The stores are total: a reference that has not been allocated holds some object, and no
  theorem depends on it. \<open>next_ref\<close> is the next reference \<open>new\<close> hands out,
  \<open>next_logger\<close> the next one \<open>getLogger\<close> hands out; \<open>loggers\<close> gives the
  category of a logger object.
\<close>

record world =
  facades :: "nat \<Rightarrow> fox_server"
  next_ref :: nat
  loggers :: "nat \<Rightarrow> string"
  next_logger :: nat
  log4js :: "string \<Rightarrow> logger_state"
  console :: "console_line list"

definition FOX_SERVER_DEFAULT_PORT :: int where
  "FOX_SERVER_DEFAULT_PORT = 8081"

definition log4js_getLogger :: "string \<Rightarrow> world \<Rightarrow> nat \<times> world" where
  "log4js_getLogger category w =
     (next_logger w,
      w\<lparr>loggers := (loggers w)(next_logger w := category), next_logger := Suc (next_logger w)\<rparr>)"

text \<open>\<open>lg.level = l\<close> and \<open>lg.level\<close>: the level of the logger's category.\<close>

definition set_level :: "nat \<Rightarrow> string \<Rightarrow> world \<Rightarrow> world" where
  "set_level lg l w =
     w\<lparr>log4js := (log4js w)(loggers w lg := (log4js w (loggers w lg))\<lparr>level := l\<rparr>)\<rparr>"

definition get_level :: "nat \<Rightarrow> world \<Rightarrow> string" where
  "get_level lg w = level (log4js w (loggers w lg))"

definition log_call :: "nat \<Rightarrow> string \<Rightarrow> log_message \<Rightarrow> world \<Rightarrow> world" where
  "log_call lg method msg w =
     w\<lparr>log4js := (log4js w)(loggers w lg :=
          (log4js w (loggers w lg))\<lparr>entries := entries (log4js w (loggers w lg)) @ [(method, msg)]\<rparr>)\<rparr>"

text \<open>
  The constructor. The field initialiser \<open>logger = getLogger('server')\<close> runs for every
  new object, so every facade gets a logger object of its own; the last statement sets the
  level through that logger.
\<close>

definition new_FoxServer :: "fox_server_props \<Rightarrow> world \<Rightarrow> nat \<times> world" where
  "new_FoxServer props w =
     (let this = next_ref w;
          (lg, w0) = log4js_getLogger ''server'' w;
          obj = \<lparr>app = express,
                 server = http_createServer,
                 logger = lg,
                 host = props_host props,
                 port = (case props_port props of None \<Rightarrow> FOX_SERVER_DEFAULT_PORT | Some p \<Rightarrow> p)\<rparr>;
          w1 = w0\<lparr>facades := (facades w0)(this := obj), next_ref := Suc this\<rparr>;
          w2 = set_level (logger obj) ''debug'' w1
      in (this, w2))"

text \<open>\<open>createFoxServer(options?)\<close>: the constructor's parameter defaults to \<open>{}\<close>.\<close>

definition createFoxServer :: "fox_server_props option \<Rightarrow> world \<Rightarrow> nat \<times> world" where
  "createFoxServer options w =
     (case options of
        None \<Rightarrow> new_FoxServer \<lparr>props_host = None, props_port = None\<rparr> w
      | Some props \<Rightarrow> new_FoxServer props w)"

subsection \<open>Accessors\<close>

definition getExpressApp :: "nat \<Rightarrow> world \<Rightarrow> express_app" where
  "getExpressApp this w = app (facades w this)"

definition getHttpServer :: "nat \<Rightarrow> world \<Rightarrow> http_server" where
  "getHttpServer this w = server (facades w this)"

definition getLogger :: "nat \<Rightarrow> world \<Rightarrow> nat" where
  "getLogger this w = logger (facades w this)"

text \<open>
  \<open>if (address && !(typeof address === 'string')) return address.port; return this.port\<close>:
  \<open>null\<close> is falsy and a string fails the second test, so only an address record is read.
\<close>

definition getPort :: "nat \<Rightarrow> world \<Rightarrow> int" where
  "getPort this w =
     (case server_address (getHttpServer this w) of
        AddressInfo a \<Rightarrow> address_port a
      | AddressNull \<Rightarrow> port (facades w this)
      | AddressString s \<Rightarrow> port (facades w this))"

definition getHost :: "nat \<Rightarrow> world \<Rightarrow> string option" where
  "getHost this w =
     (case server_address (getHttpServer this w) of
        AddressInfo a \<Rightarrow> (if address a = ''::'' then Some ''localhost'' else Some (address a))
      | AddressNull \<Rightarrow> host (facades w this)
      | AddressString s \<Rightarrow> host (facades w this))"

subsection \<open>Configuration methods\<close>

text \<open>
  \<open>this.getExpressApp().use(...)\<close> and \<open>.set(...)\<close> change the application the facade
  owns; \<open>this.getLogger().debug(...)\<close> is a call on the facade's logger. In
  \<open>useSession\<close> and \<open>useStatic\<close> the factory runs first, as the argument of
  \<open>use\<close>: when it throws, nothing is registered and nothing is logged.
\<close>

definition with_app :: "nat \<Rightarrow> (express_app \<Rightarrow> express_app) \<Rightarrow> world \<Rightarrow> world" where
  "with_app this f w =
     w\<lparr>facades := (facades w)(this := (facades w this)\<lparr>app := f (getExpressApp this w)\<rparr>)\<rparr>"

definition debug :: "nat \<Rightarrow> string \<Rightarrow> world \<Rightarrow> world" where
  "debug this msg w = log_call (getLogger this w) ''debug'' (Text msg) w"

definition info :: "nat \<Rightarrow> log_message \<Rightarrow> world \<Rightarrow> world" where
  "info this msg w = log_call (getLogger this w) ''info'' msg w"

definition useFilesUpload :: "nat \<Rightarrow> jsvalue \<Rightarrow> world \<Rightarrow> nat \<times> world" where
  "useFilesUpload this options w =
     (let w1 = with_app this
                 (app_use ''/''
                    (FileUpload
                       (nullish_coalesce options
                          (Obj [(''limits'', Obj [(''fileSize'', Num (50 * 1024 * 1024))])])))) w;
          w2 = debug this ''USE: file upload'' w1
      in (this, w2))"

definition useCors :: "nat \<Rightarrow> jsvalue \<Rightarrow> world \<Rightarrow> nat \<times> world" where
  "useCors this options w =
     (let w1 = with_app this (app_use ''/'' (Cors options)) w;
          w2 = debug this ''USE: cors'' w1
      in (this, w2))"

definition useCookieParser :: "nat \<Rightarrow> jsvalue \<Rightarrow> jsvalue \<Rightarrow> world \<Rightarrow> nat \<times> world" where
  "useCookieParser this secret options w =
     (let w1 = with_app this (app_use ''/'' (CookieParser secret options)) w;
          w2 = debug this ''USE: cookie parser'' w1
      in (this, w2))"

definition useBodyParserURLEncode :: "nat \<Rightarrow> jsvalue \<Rightarrow> world \<Rightarrow> nat \<times> world" where
  "useBodyParserURLEncode this options w =
     (let w1 = with_app this
                 (app_use ''/''
                    (BodyParserUrlencoded
                       (nullish_coalesce options (Obj [(''extended'', Bool True)])))) w;
          w2 = debug this ''USE: body parser - urlencode'' w1
      in (this, w2))"

definition useBodyParserJSON :: "nat \<Rightarrow> jsvalue \<Rightarrow> world \<Rightarrow> nat \<times> world" where
  "useBodyParserJSON this options w =
     (let w1 = with_app this (app_use ''/'' (BodyParserJson options)) w;
          w2 = debug this ''USE: body parser - json'' w1
      in (this, w2))"

definition useRenderEngine :: "nat \<Rightarrow> string \<Rightarrow> string \<Rightarrow> world \<Rightarrow> nat \<times> world" where
  "useRenderEngine this engine path w =
     (let w1 = with_app this (app_set ''views'' path) w;
          w2 = with_app this (app_set ''view engine'' engine) w1;
          w3 = debug this ''USE: render engine'' w2
      in (this, w3))"

definition useMethodOverride :: "nat \<Rightarrow> jsvalue \<Rightarrow> jsvalue \<Rightarrow> world \<Rightarrow> nat \<times> world" where
  "useMethodOverride this getter options w =
     (let w1 = with_app this (app_use ''/'' (MethodOverride getter options)) w;
          w2 = debug this ''USE: method override'' w1
      in (this, w2))"

definition useSession :: "nat \<Rightarrow> jsvalue \<Rightarrow> world \<Rightarrow> (error + nat) \<times> world" where
  "useSession this options w =
     (case session
             (if typeof_string options
              then Obj [(''secret'', options),
                        (''resave'', Bool True),
                        (''saveUninitialized'', Bool True)]
              else options) of
        Inl e \<Rightarrow> (Inl e, w)
      | Inr fn \<Rightarrow>
          (let w1 = with_app this (app_use ''/'' fn) w;
               w2 = debug this ''USE: session'' w1
           in (Inr this, w2)))"

definition useStatic :: "nat \<Rightarrow> string \<Rightarrow> string \<Rightarrow> world \<Rightarrow> (error + nat) \<times> world" where
  "useStatic this url path w =
     (case express_static path of
        Inl e \<Rightarrow> (Inl e, w)
      | Inr fn \<Rightarrow>
          (let w1 = with_app this (app_use url fn) w;
               w2 = debug this ''USE: static'' w1
           in (Inr this, w2)))"

subsection \<open>Starting the listener\<close>

text \<open>
  A promise is pending, fulfilled with a value or rejected with an error; \<open>resolve\<close>
  and \<open>reject\<close> settle a pending promise and leave a settled one as it is. The executor
  of \<open>start\<close> receives \<open>resolve\<close> only, but \<open>new Promise\<close> rejects the promise with
  whatever the executor throws, and the executor is the call of \<open>listen\<close>.

  What the call of \<open>listen\<close> does is an input of \<open>start\<close>: the listener comes up on an
  address and runs the callback, or it emits its error event and never runs the callback,
  or the call throws. The result of \<open>start\<close> is the promise as it stands once the
  listener has answered.
\<close>

datatype 'a promise = Pending | Fulfilled 'a | Rejected error

fun resolve :: "'a promise \<Rightarrow> 'a \<Rightarrow> 'a promise" where
  "resolve Pending v = Fulfilled v"
| "resolve p v = p"

fun reject :: "'a promise \<Rightarrow> error \<Rightarrow> 'a promise" where
  "reject Pending e = Rejected e"
| "reject p e = p"

datatype listen_outcome = Listening address_info | ListenError string | ListenThrows error

text \<open>
  What \<open>listen({port, host}, callback)\<close> of a Node listener does, given what the
  operating system answers when asked for the socket. The call throws
  \<open>ERR_SERVER_ALREADY_LISTEN\<close> on a listener that is listening, and
  \<open>ERR_SOCKET_BAD_PORT\<close> on a port outside 0..65535, before it asks for a socket; a
  socket that cannot be had (a port in use) is reported by the error event.
\<close>

datatype socket_answer = Bound address_info | BindFailed string

definition server_listen :: "http_server \<Rightarrow> int \<Rightarrow> string option \<Rightarrow> socket_answer \<Rightarrow> listen_outcome" where
  "server_listen s p h answer =
     (if server_address s \<noteq> AddressNull then ListenThrows (PlainError ''ERR_SERVER_ALREADY_LISTEN'')
      else if p < 0 \<or> 65535 < p then ListenThrows (RangeError ''ERR_SOCKET_BAD_PORT'')
      else (case answer of Bound a \<Rightarrow> Listening a | BindFailed e \<Rightarrow> ListenError e))"

definition with_server :: "nat \<Rightarrow> (http_server \<Rightarrow> http_server) \<Rightarrow> world \<Rightarrow> world" where
  "with_server this f w =
     w\<lparr>facades := (facades w)(this := (facades w this)\<lparr>server := f (getHttpServer this w)\<rparr>)\<rparr>"

definition console_log :: "console_line \<Rightarrow> world \<Rightarrow> world" where
  "console_log l w = w\<lparr>console := console w @ [l]\<rparr>"

definition start :: "nat \<Rightarrow> listen_outcome \<Rightarrow> world \<Rightarrow> nat promise \<times> world" where
  "start this outcome w =
     (let w1 = console_log (FigletText ''FOX SERVER'' ''Soft'' ''fitted'') w;
          w2 = info this MsgStarting w1;
          promise = Pending;
          w3 = with_server this
                 (\<lambda>s. s\<lparr>listen_calls :=
                           listen_calls s @ [(port (facades w2 this), host (facades w2 this))]\<rparr>) w2
      in case outcome of
           Listening a \<Rightarrow>
             (let w4 = with_server this (\<lambda>s. s\<lparr>server_address := AddressInfo a\<rparr>) w3;
                  w5 = info this (MsgStarted (getHost this w4) (getPort this w4)) w4
              in (resolve promise this, w5))
         | ListenError e \<Rightarrow>
             (promise, with_server this (\<lambda>s. s\<lparr>error_events := error_events s @ [e]\<rparr>) w3)
         | ListenThrows x \<Rightarrow> (reject promise x, w3))"

text \<open>
  \<open>start\<close> on a Node listener: \<open>listen\<close> is called with the facade's port and host on
  the facade's listener as it stands.
\<close>

definition start_on_node :: "nat \<Rightarrow> socket_answer \<Rightarrow> world \<Rightarrow> nat promise \<times> world" where
  "start_on_node this answer w =
     start this
       (server_listen (getHttpServer this w) (port (facades w this)) (host (facades w this)) answer) w"

subsection \<open>Sequences of configuration calls\<close>

text \<open>
  A call of a configuration method with its arguments. \<open>use_call\<close> are the eight
  methods that register middleware; \<open>config_call\<close> adds \<open>useRenderEngine\<close>.
  \<open>run_chain\<close> is method chaining: each call is made on the value the call before it
  returned, and a call that throws ends the chain with its error.
\<close>

datatype use_call =
    Call_useFilesUpload jsvalue
  | Call_useCors jsvalue
  | Call_useCookieParser jsvalue jsvalue
  | Call_useBodyParserURLEncode jsvalue
  | Call_useBodyParserJSON jsvalue
  | Call_useMethodOverride jsvalue jsvalue
  | Call_useSession jsvalue
  | Call_useStatic string string

datatype config_call =
    Use use_call
  | Call_useRenderEngine string string

definition returned :: "nat \<times> world \<Rightarrow> (error + nat) \<times> world" where
  "returned rw = (Inr (fst rw), snd rw)"

fun invoke_use :: "nat \<Rightarrow> use_call \<Rightarrow> world \<Rightarrow> (error + nat) \<times> world" where
  "invoke_use this (Call_useFilesUpload options) w = returned (useFilesUpload this options w)"
| "invoke_use this (Call_useCors options) w = returned (useCors this options w)"
| "invoke_use this (Call_useCookieParser secret options) w =
     returned (useCookieParser this secret options w)"
| "invoke_use this (Call_useBodyParserURLEncode options) w =
     returned (useBodyParserURLEncode this options w)"
| "invoke_use this (Call_useBodyParserJSON options) w = returned (useBodyParserJSON this options w)"
| "invoke_use this (Call_useMethodOverride getter options) w =
     returned (useMethodOverride this getter options w)"
| "invoke_use this (Call_useSession options) w = useSession this options w"
| "invoke_use this (Call_useStatic url path) w = useStatic this url path w"

fun invoke :: "nat \<Rightarrow> config_call \<Rightarrow> world \<Rightarrow> (error + nat) \<times> world" where
  "invoke this (Use c) w = invoke_use this c w"
| "invoke this (Call_useRenderEngine engine path) w = returned (useRenderEngine this engine path w)"

fun run_chain :: "nat \<Rightarrow> config_call list \<Rightarrow> world \<Rightarrow> (error + nat) \<times> world" where
  "run_chain this [] w = (Inr this, w)"
| "run_chain this (c # cs) w =
     (case invoke this c w of
        (Inl e, w') \<Rightarrow> (Inl e, w')
      | (Inr r, w') \<Rightarrow> run_chain r cs w')"

text \<open>
  A world with no facade, for concrete runs. \<open>registered c\<close> is what the call \<open>c\<close>
  registers, and \<open>returns c\<close> says that the call returns: the pipeline of a new facade
  after that one call, and whether the call gave a value there. \<open>call_returns\<close> is the
  same for all nine methods.
\<close>

definition empty_world :: world where
  "empty_world =
     \<lparr>facades = (\<lambda>r. \<lparr>app = express, server = http_createServer, logger = 0,
                        host = None, port = 0\<rparr>),
      next_ref = 0,
      loggers = (\<lambda>r. []),
      next_logger = 0,
      log4js = (\<lambda>c. \<lparr>level = ''OFF'', entries = []\<rparr>),
      console = []\<rparr>"


definition returns :: "use_call \<Rightarrow> bool" where
  "returns c =
     (case createFoxServer None empty_world of
        (r, w) \<Rightarrow> (case fst (invoke_use r c w) of Inl e \<Rightarrow> False | Inr v \<Rightarrow> True))"

definition call_returns :: "config_call \<Rightarrow> bool" where
  "call_returns c =
     (case createFoxServer None empty_world of
        (r, w) \<Rightarrow> (case fst (invoke r c w) of Inl e \<Rightarrow> False | Inr v \<Rightarrow> True))"

text \<open>
  The wildcard addresses, for the statements about \<open>getHost\<close>: \<open>::\<close> for IPv6 and
  \<open>0.0.0.0\<close> for IPv4.
\<close>

definition wildcard_address :: "string \<Rightarrow> bool" where
  "wildcard_address a = (a = ''::'' \<or> a = ''0.0.0.0'')"

section \<open>Properties\<close>

subsection \<open>Unfolding sets\<close>

lemmas total_method_defs = useFilesUpload_def useCors_def useCookieParser_def
  useBodyParserURLEncode_def useBodyParserJSON_def useRenderEngine_def useMethodOverride_def

lemmas method_defs = total_method_defs useSession_def useStatic_def session_def express_static_def
  returned_def

lemmas store_defs = with_app_def debug_def info_def log_call_def getExpressApp_def getLogger_def
  getHttpServer_def app_use_def app_set_def with_server_def console_log_def set_level_def

lemmas fresh_defs = createFoxServer_def new_FoxServer_def log4js_getLogger_def empty_world_def
  express_def

subsection \<open>What one call does\<close>

lemma returns_cases:
  "returns (Call_useFilesUpload options)"
  "returns (Call_useCors options)"
  "returns (Call_useCookieParser secret options)"
  "returns (Call_useBodyParserURLEncode options)"
  "returns (Call_useBodyParserJSON options)"
  "returns (Call_useMethodOverride getter options)"
  "returns (Call_useSession options) =
     (typeof_string options \<or> get_property options ''secret'' \<noteq> Arr [])"
  "returns (Call_useStatic url path) = (path \<noteq> [])"
  by (auto simp add: returns_def fresh_defs method_defs Let_def elim: typeof_string.elims)

lemma call_returns_cases:
  "call_returns (Use u) = returns u"
  "call_returns (Call_useRenderEngine engine path)"
  by (simp_all add: call_returns_def returns_def fresh_defs method_defs Let_def)

lemma invoke_use_returns:
  "returns c \<Longrightarrow> fst (invoke_use this c w) = Inr this"
  by (cases c) (auto simp add: returns_cases method_defs Let_def elim: typeof_string.elims)

lemma invoke_use_throws:
  "\<not> returns c \<Longrightarrow> \<exists>e. invoke_use this c w = (Inl e, w)"
  by (cases c) (auto simp add: returns_cases method_defs Let_def)

lemma invoke_returns:
  "call_returns c \<Longrightarrow> fst (invoke this c w) = Inr this"
  by (cases c) (simp_all add: call_returns_cases invoke_use_returns returned_def useRenderEngine_def Let_def)

lemma invoke_throws:
  "\<not> call_returns c \<Longrightarrow> \<exists>e. invoke this c w = (Inl e, w)"
  by (cases c) (simp_all add: call_returns_cases invoke_use_throws)

lemma run_chain_Cons:
  "run_chain this (c # cs) w =
     (if call_returns c then run_chain this cs (snd (invoke this c w)) else invoke this c w)"
proof (cases "call_returns c")
  case True
  then have "fst (invoke this c w) = Inr this" by (rule invoke_returns)
  then obtain w' where w': "invoke this c w = (Inr this, w')" by (cases "invoke this c w") simp
  then have "run_chain this (c # cs) w = run_chain this cs (snd (invoke this c w))"
    by simp
  with True show ?thesis by simp
next
  case False
  then obtain e where "invoke this c w = (Inl e, w)" using invoke_throws by blast
  with False show ?thesis by simp
qed










lemma invoke_frame:
  "facades (snd (invoke this c w)) =
     (facades w)(this := (facades w this)\<lparr>app := app (facades (snd (invoke this c w)) this)\<rparr>)"
proof (cases c)
  case (Use u)
  then show ?thesis
    by (cases u) (auto simp add: method_defs store_defs Let_def split: if_splits)
next
  case (Call_useRenderEngine engine path)
  then show ?thesis by (simp add: method_defs store_defs Let_def)
qed

lemma invoke_fields:
  "host (facades (snd (invoke this c w)) r) = host (facades w r)"
  "port (facades (snd (invoke this c w)) r) = port (facades w r)"
  "server (facades (snd (invoke this c w)) r) = server (facades w r)"
  "logger (facades (snd (invoke this c w)) r) = logger (facades w r)"
  by (subst invoke_frame, simp)+

lemma invoke_level:
  "level (log4js (snd (invoke this c w)) lg) = level (log4js w lg)
   \<and> loggers (snd (invoke this c w)) = loggers w"
proof (cases c)
  case (Use u)
  then show ?thesis
    by (cases u) (auto simp add: method_defs store_defs Let_def split: if_splits)
next
  case (Call_useRenderEngine engine path)
  then show ?thesis by (simp add: method_defs store_defs Let_def)
qed

lemma run_chain_fields:
  "host (facades (snd (run_chain this cs w)) r) = host (facades w r)
   \<and> port (facades (snd (run_chain this cs w)) r) = port (facades w r)
   \<and> server (facades (snd (run_chain this cs w)) r) = server (facades w r)
   \<and> logger (facades (snd (run_chain this cs w)) r) = logger (facades w r)
   \<and> level (log4js (snd (run_chain this cs w)) lg) = level (log4js w lg)
   \<and> loggers (snd (run_chain this cs w)) = loggers w"
  by (induction cs arbitrary: w)
     (simp_all add: run_chain_Cons invoke_fields invoke_level del: run_chain.simps(2))

lemma invoke_frame_ex:
  "\<exists>a. facades (snd (invoke this c w)) = (facades w)(this := (facades w this)\<lparr>app := a\<rparr>)"
  using invoke_frame [of this c w] by blast

lemma run_chain_frame_ex:
  "\<exists>a. facades (snd (run_chain this cs w)) = (facades w)(this := (facades w this)\<lparr>app := a\<rparr>)"
proof (induction cs arbitrary: w)
  case Nil
  have "facades w = (facades w)(this := (facades w this)\<lparr>app := app (facades w this)\<rparr>)"
    by simp
  then have "\<exists>a. facades w = (facades w)(this := (facades w this)\<lparr>app := a\<rparr>)"
    by (rule exI)
  then show ?case by (simp only: run_chain.simps snd_conv)
next
  case (Cons c cs)
  obtain b where b: "facades (snd (invoke this c w)) = (facades w)(this := (facades w this)\<lparr>app := b\<rparr>)"
    using invoke_frame_ex by blast
  show ?case
  proof (cases "call_returns c")
    case True
    obtain a where a: "facades (snd (run_chain this cs (snd (invoke this c w)))) =
        (facades (snd (invoke this c w)))(this := (facades (snd (invoke this c w)) this)\<lparr>app := a\<rparr>)"
      using Cons.IH by blast
    have "facades (snd (run_chain this cs (snd (invoke this c w)))) =
        (facades w)(this := (facades w this)\<lparr>app := a\<rparr>)"
      unfolding a b by simp
    with True show ?thesis by (simp only: run_chain_Cons if_True) blast
  next
    case False
    with b show ?thesis by (simp only: run_chain_Cons if_False) blast
  qed
qed

lemma run_chain_frame:
  "facades (snd (run_chain this cs w)) =
     (facades w)(this := (facades w this)\<lparr>app := app (facades (snd (run_chain this cs w)) this)\<rparr>)"
proof -
  obtain a where a: "facades (snd (run_chain this cs w)) = (facades w)(this := (facades w this)\<lparr>app := a\<rparr>)"
    using run_chain_frame_ex by blast
  have "app (facades (snd (run_chain this cs w)) this) = a"
    unfolding a by simp
  then show ?thesis using a by simp
qed

subsection \<open>What the constructor and start do\<close>

lemma new_FoxServer_object:
  "facades (snd (new_FoxServer props w)) (fst (new_FoxServer props w)) =
     \<lparr>app = express, server = http_createServer, logger = next_logger w, host = props_host props,
      port = (case props_port props of None \<Rightarrow> FOX_SERVER_DEFAULT_PORT | Some p \<Rightarrow> p)\<rparr>"
  by (simp add: new_FoxServer_def set_level_def log4js_getLogger_def Let_def)

lemma new_FoxServer_level:
  "level (log4js (snd (new_FoxServer props w)) ''server'') = ''debug''
   \<and> loggers (snd (new_FoxServer props w)) (next_logger w) = ''server''"
  by (simp add: new_FoxServer_def set_level_def log4js_getLogger_def Let_def)

lemma getPort_unbound:
  "server_address (server (facades w this)) = AddressNull \<Longrightarrow> getPort this w = port (facades w this)"
  by (simp add: getPort_def getHttpServer_def)

lemma start_facade:
  "facades (snd (start this outcome w)) =
     (facades w)(this := (facades w this)\<lparr>server := server (facades (snd (start this outcome w)) this)\<rparr>)"
  by (cases outcome) (simp_all add: start_def store_defs Let_def)

lemma start_listening_address:
  "server_address (getHttpServer this (snd (start this (Listening a) w))) = AddressInfo a"
  by (simp add: start_def store_defs Let_def)

lemma start_error_events:
  "error_events (getHttpServer this (snd (start this (ListenError e) w))) =
     error_events (getHttpServer this w) @ [e]"
  by (simp add: start_def store_defs Let_def)

lemma start_throw_address:
  "server_address (getHttpServer this (snd (start this (ListenThrows x) w))) =
     server_address (getHttpServer this w)"
  by (simp add: start_def store_defs Let_def)

lemma start_promise_cases:
  "fst (start this outcome w) =
     (case outcome of Listening a \<Rightarrow> Fulfilled this | ListenError e \<Rightarrow> Pending
      | ListenThrows x \<Rightarrow> Rejected x)"
  by (cases outcome) (simp_all add: start_def Let_def)

lemma start_logger:
  "logger (facades (snd (start this outcome w)) r) = logger (facades w r)"
  by (subst start_facade) simp

lemma start_on_node_promise:
  "fst (start_on_node this answer w) =
     (if server_address (getHttpServer this w) \<noteq> AddressNull
      then Rejected (PlainError ''ERR_SERVER_ALREADY_LISTEN'')
      else if port (facades w this) < 0 \<or> 65535 < port (facades w this)
      then Rejected (RangeError ''ERR_SOCKET_BAD_PORT'')
      else (case answer of Bound a \<Rightarrow> Fulfilled this | BindFailed e \<Rightarrow> Pending))"
  by (cases answer) (simp_all add: start_on_node_def server_listen_def start_promise_cases)

subsection \<open>Concrete runs\<close>

text \<open>
  Runs from the empty world: a chain of two calls on a facade made by the factory; a
  facade with port 0 whose listener comes up on the IPv6 wildcard at port 49152; and a
  second \<open>start\<close> on that facade, where \<open>listen\<close> throws.
\<close>

lemma run_json_then_cookies:
  "(case createFoxServer None empty_world of
      (s, w) \<Rightarrow>
        stack (getExpressApp s
          (snd (run_chain s [Use (Call_useBodyParserJSON Undefined),
                             Use (Call_useCookieParser (Str ''secret'') Undefined)] w))))
   = [Layer ''/'' (BodyParserJson Undefined),
      Layer ''/'' (CookieParser (Str ''secret'') Undefined)]"
  by (simp add: fresh_defs method_defs store_defs Let_def)

lemma run_port_zero:
  "(case new_FoxServer \<lparr>props_host = None, props_port = Some 0\<rparr> empty_world of
      (s, w) \<Rightarrow>
        (getPort s w,
         fst (start_on_node s (Bound \<lparr>address = ''::'', family = ''IPv6'', address_port = 49152\<rparr>) w),
         getPort s (snd (start_on_node s (Bound \<lparr>address = ''::'', family = ''IPv6'', address_port = 49152\<rparr>) w)),
         getHost s (snd (start_on_node s (Bound \<lparr>address = ''::'', family = ''IPv6'', address_port = 49152\<rparr>) w))))
   = (0, Fulfilled 0, 49152, Some ''localhost'')"
  by (simp add: fresh_defs http_createServer_def start_on_node_def server_listen_def
        start_def getPort_def getHost_def store_defs Let_def)

lemma run_second_start:
  "(case new_FoxServer \<lparr>props_host = None, props_port = Some 0\<rparr> empty_world of
      (s, w) \<Rightarrow>
        fst (start_on_node s (Bound \<lparr>address = ''::'', family = ''IPv6'', address_port = 49153\<rparr>)
              (snd (start_on_node s
                      (Bound \<lparr>address = ''::'', family = ''IPv6'', address_port = 49152\<rparr>) w))))
   = Rejected (PlainError ''ERR_SERVER_ALREADY_LISTEN'')"
proof -
  let ?p = "\<lparr>props_host = None, props_port = Some 0\<rparr>"
  let ?s = "fst (new_FoxServer ?p empty_world)"
  let ?w = "snd (new_FoxServer ?p empty_world)"
  let ?a = "\<lparr>address = ''::'', family = ''IPv6'', address_port = 49152\<rparr>"
  have "start_on_node ?s (Bound ?a) ?w = start ?s (Listening ?a) ?w"
    by (simp add: start_on_node_def server_listen_def getHttpServer_def new_FoxServer_object
          http_createServer_def)
  then have "server_address (getHttpServer ?s (snd (start_on_node ?s (Bound ?a) ?w))) = AddressInfo ?a"
    by (simp add: start_listening_address)
  then show ?thesis
    by (simp add: case_prod_beta start_on_node_promise)
qed

subsection \<open>Properties of the facade\<close>

text \<open>
  C1, as stated, fails: the promise has a rejection path. A facade with port 65536 makes
  \<open>listen\<close> throw inside the executor of the promise, and \<open>start\<close> returns a rejected
  promise.
\<close>

theorem start_bad_port_counterexample:
  "(case new_FoxServer \<lparr>props_host = None, props_port = Some 65536\<rparr> empty_world of
      (this, w) \<Rightarrow>
        fst (start_on_node this
               (Bound \<lparr>address = ''::'', family = ''IPv6'', address_port = 65536\<rparr>) w))
   = Rejected (RangeError ''ERR_SOCKET_BAD_PORT'')"
  by (simp add: case_prod_beta start_on_node_promise getHttpServer_def new_FoxServer_object
        http_createServer_def)

text \<open>
  C1, amended. When the listener comes up on an address, the address is the listener's and
  the promise is fulfilled with the reference \<open>start\<close> was called on. When the listener
  emits its error event (a bind failure), the promise stays pending and the error is with
  the listener. The promise is rejected when, and only when, the call of \<open>listen\<close>
  throws, with what it threw; on a Node listener that is a listener listening already
  or a port outside 0..65535.
\<close>

theorem start_promise_by_listener:
  "fst (start this (Listening a) w) = Fulfilled this
   \<and> server_address (getHttpServer this (snd (start this (Listening a) w))) = AddressInfo a
   \<and> fst (start this (ListenError e) w) = Pending
   \<and> error_events (getHttpServer this (snd (start this (ListenError e) w))) =
       error_events (getHttpServer this w) @ [e]
   \<and> fst (start this (ListenThrows x) w) = Rejected x
   \<and> (fst (start this outcome w) = Rejected x) = (outcome = ListenThrows x)
   \<and> fst (start_on_node this answer w) =
       (if server_address (getHttpServer this w) \<noteq> AddressNull
        then Rejected (PlainError ''ERR_SERVER_ALREADY_LISTEN'')
        else if port (facades w this) < 0 \<or> 65535 < port (facades w this)
        then Rejected (RangeError ''ERR_SOCKET_BAD_PORT'')
        else (case answer of Bound a \<Rightarrow> Fulfilled this | BindFailed e \<Rightarrow> Pending))"
proof -
  have "(fst (start this outcome w) = Rejected x) = (outcome = ListenThrows x)"
    by (cases outcome) (simp_all add: start_promise_cases)
  moreover have "fst (start_on_node this answer w) =
       (if server_address (getHttpServer this w) \<noteq> AddressNull
        then Rejected (PlainError ''ERR_SERVER_ALREADY_LISTEN'')
        else if port (facades w this) < 0 \<or> 65535 < port (facades w this)
        then Rejected (RangeError ''ERR_SOCKET_BAD_PORT'')
        else (case answer of Bound a \<Rightarrow> Fulfilled this | BindFailed e \<Rightarrow> Pending))"
    by (rule start_on_node_promise)
  ultimately show ?thesis
    by (simp add: start_promise_cases start_listening_address start_error_events)
qed



text \<open>
  C3. A facade constructed with no port, by \<open>new\<close> or by \<open>createFoxServer\<close>, reports the
  default port 8081 from \<open>getPort\<close> before \<open>start\<close>, after any sequence of configuration
  calls.
\<close>

theorem default_port_before_start:
  "(case new_FoxServer \<lparr>props_host = h, props_port = None\<rparr> w of
      (this, w1) \<Rightarrow> getPort this (snd (run_chain this cs w1))) = FOX_SERVER_DEFAULT_PORT
   \<and> (case createFoxServer None w of
      (this, w1) \<Rightarrow> getPort this (snd (run_chain this cs w1))) = FOX_SERVER_DEFAULT_PORT
   \<and> FOX_SERVER_DEFAULT_PORT = 8081"
proof -
  have port: "getPort (fst (new_FoxServer \<lparr>props_host = h', props_port = None\<rparr> w))
          (snd (run_chain (fst (new_FoxServer \<lparr>props_host = h', props_port = None\<rparr> w)) cs
                 (snd (new_FoxServer \<lparr>props_host = h', props_port = None\<rparr> w)))) =
        FOX_SERVER_DEFAULT_PORT" for h'
    by (rule trans [OF getPort_unbound])
       (simp_all add: run_chain_fields new_FoxServer_object http_createServer_def)
  show ?thesis
    using port [of h] port [of None]
    by (simp add: case_prod_beta createFoxServer_def FOX_SERVER_DEFAULT_PORT_def)
qed

text \<open>
  C4. Once the listener is up, \<open>getPort\<close> is the port of the address the listener is
  bound to, whatever port was configured (0 included, where the operating system chose the
  port of that address).
\<close>

theorem bound_port_after_start:
  "getPort this (snd (start this (Listening a) w)) = address_port a
   \<and> (case new_FoxServer props w of
        (r, w1) \<Rightarrow> getPort r (snd (start r (Listening a) (snd (run_chain r cs w1))))) = address_port a"
  by (simp add: getPort_def start_listening_address case_prod_beta)

text \<open>
  C5, as stated, fails for the IPv4 wildcard: a listener bound to \<open>0.0.0.0\<close> makes
  \<open>getHost\<close> return \<open>0.0.0.0\<close>, not \<open>localhost\<close>.
\<close>

theorem wildcard_ipv4_counterexample:
  "wildcard_address ''0.0.0.0''
   \<and> (case new_FoxServer \<lparr>props_host = Some ''0.0.0.0'', props_port = None\<rparr> empty_world of
        (this, w1) \<Rightarrow>
          getHost this
            (snd (start this
                    (Listening \<lparr>address = ''0.0.0.0'', family = ''IPv4'', address_port = 8081\<rparr>) w1)))
       = Some ''0.0.0.0''
   \<and> (case new_FoxServer \<lparr>props_host = Some ''0.0.0.0'', props_port = None\<rparr> empty_world of
        (this, w1) \<Rightarrow>
          getHost this
            (snd (start this
                    (Listening \<lparr>address = ''0.0.0.0'', family = ''IPv4'', address_port = 8081\<rparr>) w1)))
       \<noteq> Some ''localhost''"
  by (simp add: wildcard_address_def getHost_def start_listening_address case_prod_beta)

text \<open>
  C5, amended. Once the listener is up, \<open>getHost\<close> is \<open>localhost\<close> when the bound
  address is the literal \<open>::\<close>, and the bound address itself in every other case.
\<close>

theorem bound_host_after_start:
  "getHost this (snd (start this (Listening a) w)) =
     Some (if address a = ''::'' then ''localhost'' else address a)"
  by (simp add: getHost_def start_listening_address)

text \<open>
  C6. \<open>useSession\<close> with the secret string \<open>s\<close> returns the facade and registers one
  layer, the session middleware made from the options
  \<open>{secret: s, resave: true, saveUninitialized: true}\<close>; and it does what \<open>useSession\<close>
  does with those options: same returned value, same world.
\<close>

theorem session_secret_registers_defaults:
  "fst (useSession this (Str s) w) = Inr this
   \<and> stack (getExpressApp this (snd (useSession this (Str s) w))) =
       stack (getExpressApp this w) @
         [Layer ''/'' (Session (Obj [(''secret'', Str s), (''resave'', Bool True),
                                      (''saveUninitialized'', Bool True)]))]
   \<and> useSession this (Str s) w =
       useSession this
         (Obj [(''secret'', Str s), (''resave'', Bool True), (''saveUninitialized'', Bool True)]) w"
  by (simp add: useSession_def session_def store_defs Let_def)


text \<open>
  C8. \<open>useBodyParserURLEncode\<close> with no options registers the URL-encoded body parser with
  \<open>{extended: true}\<close>; with options it registers the parser with those options as they
  are (the default stands in for \<open>undefined\<close> and \<open>null\<close> only).
\<close>

theorem urlencoded_default_extended:
  "stack (getExpressApp this (snd (useBodyParserURLEncode this Undefined w))) =
     stack (getExpressApp this w) @ [Layer ''/'' (BodyParserUrlencoded (Obj [(''extended'', Bool True)]))]
   \<and> stack (getExpressApp this (snd (useBodyParserURLEncode this options w))) =
     stack (getExpressApp this w) @
       [Layer ''/'' (BodyParserUrlencoded
          (if options = Undefined \<or> options = Null then Obj [(''extended'', Bool True)] else options))]"
  by (simp add: useBodyParserURLEncode_def nullish_coalesce_def store_defs Let_def)

text \<open>
  C9. A sequence of configuration calls on a facade, whether it returns or ends in a
  throw, changes, in the store of facades, the application of that facade and nothing
  else: its host, port, listener and logger fields are what they were, and other facades
  are untouched. For a facade just constructed, host and port are still the ones taken
  from the constructor's argument.
\<close>

theorem use_calls_keep_configuration:
  "facades (snd (run_chain this cs w)) =
     (facades w)(this := (facades w this)\<lparr>app := app (facades (snd (run_chain this cs w)) this)\<rparr>)
   \<and> host (facades (snd (run_chain this cs w)) this) = host (facades w this)
   \<and> port (facades (snd (run_chain this cs w)) this) = port (facades w this)
   \<and> server (facades (snd (run_chain this cs w)) this) = server (facades w this)
   \<and> logger (facades (snd (run_chain this cs w)) this) = logger (facades w this)
   \<and> (case new_FoxServer props w of
        (r, w1) \<Rightarrow>
          host (facades (snd (run_chain r cs w1)) r) = props_host props
          \<and> port (facades (snd (run_chain r cs w1)) r) =
              (case props_port props of None \<Rightarrow> FOX_SERVER_DEFAULT_PORT | Some p \<Rightarrow> p))"
proof -
  have "facades (snd (run_chain this cs w)) =
     (facades w)(this := (facades w this)\<lparr>app := app (facades (snd (run_chain this cs w)) this)\<rparr>)"
    by (rule run_chain_frame)
  moreover have "(case new_FoxServer props w of
        (r, w1) \<Rightarrow>
          host (facades (snd (run_chain r cs w1)) r) = props_host props
          \<and> port (facades (snd (run_chain r cs w1)) r) =
              (case props_port props of None \<Rightarrow> FOX_SERVER_DEFAULT_PORT | Some p \<Rightarrow> p))"
    by (simp add: case_prod_beta run_chain_fields new_FoxServer_object)
  ultimately show ?thesis by (simp add: run_chain_fields)
qed

text \<open>
  C10, as stated, fails: facades do not share one logger instance. Two facades made one
  after the other hold two logger objects, both of category \<open>server\<close>.
\<close>

theorem facades_distinct_loggers_counterexample:
  "(case new_FoxServer \<lparr>props_host = None, props_port = None\<rparr> empty_world of
      (a, w1) \<Rightarrow>
        (case new_FoxServer \<lparr>props_host = None, props_port = None\<rparr> w1 of
           (b, w2) \<Rightarrow>
             getLogger a w2 \<noteq> getLogger b w2
             \<and> loggers w2 (getLogger a w2) = ''server''
             \<and> loggers w2 (getLogger b w2) = ''server''))"
  by (simp add: fresh_defs set_level_def getLogger_def Let_def)

text \<open>
  C10, amended. Constructing a facade makes a new logger object of category \<open>server\<close>
  for it and sets the level of that category to \<open>debug\<close>. \<open>getLogger\<close> returns the
  facade's own logger on every call, also after configuration calls and after \<open>start\<close>.
  Two facades are two objects with two logger objects of the one category: constructing
  the second sets the level that the first one's logger reads back to \<open>debug\<close>, whatever
  it was set to in between.
\<close>

theorem constructor_sets_category_level:
  "(case new_FoxServer props w of
      (this, w1) \<Rightarrow> get_level (getLogger this w1) w1 = ''debug''
                    \<and> level (log4js w1 ''server'') = ''debug''
                    \<and> loggers w1 (getLogger this w1) = ''server''
                    \<and> getLogger this w1 = next_logger w
                    \<and> next_logger w1 = Suc (next_logger w)
                    \<and> getLogger this (snd (run_chain this cs w1)) = getLogger this w1
                    \<and> getLogger this (snd (start this outcome w1)) = getLogger this w1)
   \<and> (case new_FoxServer p1 w of
        (a, w1) \<Rightarrow>
          (case new_FoxServer p2 (set_level (getLogger a w1) l w1) of
             (b, w2) \<Rightarrow> a \<noteq> b
                        \<and> getLogger a w2 \<noteq> getLogger b w2
                        \<and> loggers w2 (getLogger a w2) = ''server''
                        \<and> loggers w2 (getLogger b w2) = ''server''
                        \<and> get_level (getLogger a w2) w2 = ''debug''
                        \<and> get_level (getLogger b w2) w2 = ''debug''))"
proof -
  have one: "(case new_FoxServer props w of
      (this, w1) \<Rightarrow> get_level (getLogger this w1) w1 = ''debug''
                    \<and> level (log4js w1 ''server'') = ''debug''
                    \<and> loggers w1 (getLogger this w1) = ''server''
                    \<and> getLogger this w1 = next_logger w
                    \<and> next_logger w1 = Suc (next_logger w)
                    \<and> getLogger this (snd (run_chain this cs w1)) = getLogger this w1
                    \<and> getLogger this (snd (start this outcome w1)) = getLogger this w1)"
    by (simp add: case_prod_beta getLogger_def get_level_def new_FoxServer_object
          new_FoxServer_level run_chain_fields start_logger)
       (simp add: new_FoxServer_def log4js_getLogger_def set_level_def Let_def)
  have two: "(case new_FoxServer p1 w of
        (a, w1) \<Rightarrow>
          (case new_FoxServer p2 (set_level (getLogger a w1) l w1) of
             (b, w2) \<Rightarrow> a \<noteq> b
                        \<and> getLogger a w2 \<noteq> getLogger b w2
                        \<and> loggers w2 (getLogger a w2) = ''server''
                        \<and> loggers w2 (getLogger b w2) = ''server''
                        \<and> get_level (getLogger a w2) w2 = ''debug''
                        \<and> get_level (getLogger b w2) w2 = ''debug''))"
    by (simp add: new_FoxServer_def set_level_def get_level_def getLogger_def
          log4js_getLogger_def Let_def)
  from one two show ?thesis by (rule conjI)
qed

end
